theory Spec2Isabelle
  imports Main "HOL-Library.Word"
begin

section \<open>The Darwin platform primitives of the Blaze client\<close>

text \<open>
  The unit \<^verbatim>\<open>src/main/cpp/blaze_util_darwin.cc\<close> holds eight functions, each a
  wrapper around at most one call into the operating system. The model keeps that shape:
  the operating system is a record of what each of those calls answers, a function of the
  unit takes that record, and its result says whether the function returned, ended the
  program through \<^verbatim>\<open>pdie\<close>, or left the behaviour that C++ defines.
\<close>

subsection \<open>Values\<close>

type_synonym pid_t = int

type_synonym uint64 = "64 word"

text \<open>
  \<^verbatim>\<open>struct timeval\<close> of the Darwin headers on a 64-bit machine: \<^verbatim>\<open>tv_sec\<close> is a
  \<^verbatim>\<open>long\<close> (64 bits), \<^verbatim>\<open>tv_usec\<close> an \<^verbatim>\<open>int\<close> (32 bits); both are signed and
  read with \<open>sint\<close>.
\<close>

record timeval =
  tv_sec :: "64 word"
  tv_usec :: "32 word"

text \<open>
  The part of \<^verbatim>\<open>struct proc_vnodepathinfo\<close> the unit reads: the path buffers of
  the current and of the root directory, each a \<^verbatim>\<open>char[MAXPATHLEN]\<close>.
\<close>

record vnode_info_path =
  vip_path :: string

record proc_vnodepathinfo =
  pvi_cdir :: vnode_info_path
  pvi_rdir :: vnode_info_path

definition NUL :: char where
  "NUL = CHR 0x00"

definition MAXPATHLEN :: nat where
  "MAXPATHLEN = 1024"

definition PROC_PIDPATHINFO_MAXSIZE :: nat where
  "PROC_PIDPATHINFO_MAXSIZE = 4 * MAXPATHLEN"

text \<open>\<^verbatim>\<open>sizeof(struct proc_vnodepathinfo)\<close>: two members of 152 + 1024 bytes.\<close>

definition sizeof_proc_vnodepathinfo :: int where
  "sizeof_proc_vnodepathinfo = 2352"

text \<open>The two exit codes of \<^verbatim>\<open>blaze_exit_code.h\<close> that the unit names.\<close>

datatype exit_code = LOCAL_ENVIRONMENTAL_ERROR | INTERNAL_ERROR

subsection \<open>The operating system and the running program\<close>

text \<open>
  What the system calls of the unit answer at the moment of the call. An answer is the
  call's return value with, where the call stores through a pointer, the value it stored
  (\<open>None\<close> when it stored nothing and the caller's zero-initialised variable stands).
  \<open>stderr_log\<close> is what the program has written to its standard error stream.
\<close>

record world =
  getsockopt_LOCAL_PEERPID :: "int \<Rightarrow> int \<times> pid_t option"
  getpid :: pid_t
  proc_pidpath :: "pid_t \<Rightarrow> int \<times> string option"
  gettimeofday :: "int \<times> timeval option"
  proc_pidinfo_VNODEPATHINFO :: "pid_t \<Rightarrow> int \<times> proc_vnodepathinfo option"
  stderr_log :: "string list"

text \<open>
  How a call of one of the functions ends: it returns a value, the program ends with an
  exit code, or the run meets an operation C++ leaves undefined (a signed overflow, a read
  past the end of an array).
\<close>

datatype 'a outcome = Returns 'a | Dies exit_code | Undefined

text \<open>
  Modelled from the spec: \<^verbatim>\<open>pdie\<close> is declared in \<^verbatim>\<open>blaze_util.h\<close> and defined
  outside this unit. The specification has it terminate the calling program immediately
  with a tagged fatal error and a human-readable message; the model ends the run with
  the exit code and appends the message to the standard error stream (the detail the
  operating system adds to the message is left out).
\<close>

definition pdie :: "exit_code \<Rightarrow> string \<Rightarrow> world \<Rightarrow> 'a outcome \<times> world" where
  "pdie exit_status msg w = (Dies exit_status, w\<lparr>stderr_log := stderr_log w @ [msg]\<rparr>)"

text \<open>The value a pointer argument holds after a call: what the call stored, if anything.\<close>

definition stored :: "'a \<Rightarrow> 'a option \<Rightarrow> 'a" where
  "stored initial answer = (case answer of None \<Rightarrow> initial | Some v \<Rightarrow> v)"

text \<open>Whether an integer is a value of the signed type of \<open>n\<close> bits.\<close>

definition fits_signed :: "nat \<Rightarrow> int \<Rightarrow> bool" where
  "fits_signed n x = (- (2 ^ (n - 1)) \<le> x \<and> x < 2 ^ (n - 1))"

subsection \<open>The functions of the unit\<close>

definition WarnFilesystemType :: "string \<Rightarrow> world \<Rightarrow> unit outcome \<times> world" where
  "WarnFilesystemType output_base w = (Returns (), w)"

definition GetPeerProcessId :: "int \<Rightarrow> world \<Rightarrow> pid_t outcome \<times> world" where
  "GetPeerProcessId socket w =
     (let (rc, answer) = getsockopt_LOCAL_PEERPID w socket;
          pid = stored 0 answer
      in if rc < 0
         then pdie LOCAL_ENVIRONMENTAL_ERROR ''can't get server pid from connection'' w
         else (Returns pid, w))"

text \<open>
  \<^verbatim>\<open>string(pathbuf, len)\<close> copies \<open>len\<close> bytes of the buffer; a length that is
  negative or beyond the buffer makes it read outside the array.
\<close>

definition GetSelfPath :: "world \<Rightarrow> string outcome \<times> world" where
  "GetSelfPath w =
     (let (len, answer) = proc_pidpath w (getpid w);
          pathbuf = stored (replicate PROC_PIDPATHINFO_MAXSIZE NUL) answer
      in if len = 0
         then pdie INTERNAL_ERROR ''error calling proc_pidpath'' w
         else if 0 \<le> len \<and> nat len \<le> length pathbuf
         then (Returns (take (nat len) pathbuf), w)
         else (Undefined, w))"

text \<open>
  \<^verbatim>\<open>ts.tv_sec * 1000000000LL\<close> is computed in \<^verbatim>\<open>long long\<close>, \<^verbatim>\<open>ts.tv_usec * 1000\<close>
  in \<^verbatim>\<open>int\<close>, their sum in \<^verbatim>\<open>long long\<close>; returning it as \<^verbatim>\<open>uint64\<close> reduces it
  modulo \<open>2 ^ 64\<close>, which is what \<open>word_of_int\<close> does.
\<close>

definition MonotonicClock :: "world \<Rightarrow> uint64 outcome \<times> world" where
  "MonotonicClock w =
     (let (rc, answer) = gettimeofday w;
          ts = stored \<lparr>tv_sec = 0, tv_usec = 0\<rparr> answer
      in if rc < 0
         then pdie INTERNAL_ERROR ''error calling gettimeofday'' w
         else
           (let secs = sint (tv_sec ts) * 1000000000;
                usecs = sint (tv_usec ts) * 1000
            in if fits_signed 64 secs \<and> fits_signed 32 usecs \<and> fits_signed 64 (secs + usecs)
               then (Returns (word_of_int (secs + usecs)), w)
               else (Undefined, w)))"

definition ProcessClock :: "world \<Rightarrow> uint64 outcome \<times> world" where
  "ProcessClock w = MonotonicClock w"

definition SetScheduling :: "bool \<Rightarrow> int \<Rightarrow> world \<Rightarrow> unit outcome \<times> world" where
  "SetScheduling batch_cpu_scheduling io_nice_level w = (Returns (), w)"

text \<open>
  \<^verbatim>\<open>string(info.pvi_cdir.vip_path)\<close> copies the bytes before the first NUL; an array
  that holds no NUL makes it read past the end.
\<close>

definition GetProcessCWD :: "pid_t \<Rightarrow> world \<Rightarrow> string outcome \<times> world" where
  "GetProcessCWD pid w =
     (let (rc, answer) = proc_pidinfo_VNODEPATHINFO w pid;
          info = stored \<lparr>pvi_cdir = \<lparr>vip_path = replicate MAXPATHLEN NUL\<rparr>,
                         pvi_rdir = \<lparr>vip_path = replicate MAXPATHLEN NUL\<rparr>\<rparr> answer
      in if rc \<noteq> sizeof_proc_vnodepathinfo
         then (Returns '''', w)
         else if NUL \<in> set (vip_path (pvi_cdir info))
         then (Returns (takeWhile (\<lambda>c. c \<noteq> NUL) (vip_path (pvi_cdir info))), w)
         else (Undefined, w))"

text \<open>
  Modelled from the spec: \<^verbatim>\<open>blaze_util::ends_with\<close> is declared in
  \<^verbatim>\<open>util/strings.h\<close> and defined outside this unit. The specification speaks of a
  name carrying the native shared-library suffix: the second string is a suffix of the
  first, compared byte by byte.
\<close>

definition ends_with :: "string \<Rightarrow> string \<Rightarrow> bool" where
  "ends_with haystack needle =
     (length needle \<le> length haystack \<and>
      drop (length haystack - length needle) haystack = needle)"

definition IsSharedLibrary :: "string \<Rightarrow> bool" where
  "IsSharedLibrary filename = ends_with filename ''.dylib''"

subsection \<open>Machines used as examples\<close>

text \<open>A machine on which every call of the unit fails and nothing has been printed.\<close>

definition failing_world :: world where
  "failing_world =
     \<lparr>getsockopt_LOCAL_PEERPID = (\<lambda>fd. (- 1, None)),
      getpid = 4242,
      proc_pidpath = (\<lambda>pid. (0, None)),
      gettimeofday = (- 1, None),
      proc_pidinfo_VNODEPATHINFO = (\<lambda>pid. (0, None)),
      stderr_log = []\<rparr>"

text \<open>The same machine with a wall clock that reads the given seconds and microseconds.\<close>

definition clock_world :: "int \<Rightarrow> int \<Rightarrow> world" where
  "clock_world secs usecs =
     failing_world\<lparr>gettimeofday :=
       (0, Some \<lparr>tv_sec = word_of_int secs, tv_usec = word_of_int usecs\<rparr>)\<rparr>"

text \<open>
  The same machine on which descriptor \<open>fd\<close> is a connected local socket whose other
  end is held by process \<open>peer\<close>.
\<close>

definition peer_world :: "int \<Rightarrow> pid_t \<Rightarrow> world" where
  "peer_world fd peer =
     failing_world\<lparr>getsockopt_LOCAL_PEERPID :=
       (\<lambda>d. if d = fd then (0, Some peer) else (- 1, None))\<rparr>"

text \<open>An array of \<open>n\<close> bytes that holds the C string \<open>s\<close>, NUL bytes after it.\<close>

definition c_buffer :: "nat \<Rightarrow> string \<Rightarrow> string" where
  "c_buffer n s = s @ NUL # replicate (n - Suc (length s)) NUL"

text \<open>
  The same machine on which process \<open>pid\<close> is alive with working directory \<open>dir\<close>
  and root directory \<^verbatim>\<open>/\<close>, and no other process is known.
\<close>

definition cwd_world :: "pid_t \<Rightarrow> string \<Rightarrow> world" where
  "cwd_world pid dir =
     failing_world\<lparr>proc_pidinfo_VNODEPATHINFO :=
       (\<lambda>p. if p = pid
            then (sizeof_proc_vnodepathinfo,
                  Some \<lparr>pvi_cdir = \<lparr>vip_path = c_buffer MAXPATHLEN dir\<rparr>,
                        pvi_rdir = \<lparr>vip_path = c_buffer MAXPATHLEN ''/''\<rparr>\<rparr>)
            else (0, None))\<rparr>"

section \<open>Auxiliary facts\<close>

text \<open>A string ends with another exactly when it is some stem followed by it.\<close>

lemma ends_with_iff_append:
  "ends_with haystack needle = (\<exists>stem. haystack = stem @ needle)"
proof
  assume "ends_with haystack needle"
  then have "drop (length haystack - length needle) haystack = needle"
    by (simp add: ends_with_def)
  then have "haystack = take (length haystack - length needle) haystack @ needle"
    by (metis append_take_drop_id)
  then show "\<exists>stem. haystack = stem @ needle" ..
next
  assume "\<exists>stem. haystack = stem @ needle"
  then obtain stem where "haystack = stem @ needle" ..
  then show "ends_with haystack needle"
    by (simp add: ends_with_def)
qed

text \<open>Reading a C string back from an array gives the bytes before the terminator.\<close>

lemma takeWhile_cstring:
  "NUL \<notin> set dir \<Longrightarrow> takeWhile (\<lambda>c. c \<noteq> NUL) (dir @ NUL # rest) = dir"
  by (induction dir) auto

text \<open>
  When \<open>MonotonicClock\<close> returns, no step of its arithmetic overflowed and the value
  is the nanosecond count of the stored time value, reduced modulo \<open>2 ^ 64\<close>.
\<close>

lemma MonotonicClock_Returns:
  assumes "fst (MonotonicClock w) = Returns v"
    and "ts = stored \<lparr>tv_sec = 0, tv_usec = 0\<rparr> (snd (gettimeofday w))"
  shows "v = word_of_int (sint (tv_sec ts) * 1000000000 + sint (tv_usec ts) * 1000) \<and>
         fits_signed 64 (sint (tv_sec ts) * 1000000000 + sint (tv_usec ts) * 1000)"
  using assms
  by (cases "gettimeofday w")
     (auto simp add: MonotonicClock_def pdie_def Let_def split: if_splits)

lemma unat_word64_of_int:
  assumes "0 \<le> k" and "fits_signed 64 k"
  shows "int (unat (word_of_int k :: uint64)) = k"
proof -
  from assms have "k < 2 ^ 64"
    by (simp add: fits_signed_def)
  with assms(1) show ?thesis
    by (simp add: unsigned_of_int take_bit_int_eq_self)
qed

section \<open>Properties\<close>

subsection \<open>The process clock\<close>

text \<open>
  C2. \<open>ProcessClock\<close> is extensionally equal to \<open>MonotonicClock\<close> on this operating
  system: on every machine it ends the way \<open>MonotonicClock\<close> ends at that moment, with
  the same value and the same effect.
\<close>

theorem ProcessClock_is_MonotonicClock:
  "ProcessClock w = MonotonicClock w"
  by (simp add: ProcessClock_def)

subsection \<open>The stubs\<close>

text \<open>
  C7. \<open>SetScheduling\<close> never raises an error and never terminates the program, whatever
  the batch flag and the nice level are: it returns and leaves the machine as it was.
\<close>

theorem SetScheduling_noop:
  "SetScheduling batch_cpu_scheduling io_nice_level w = (Returns (), w)"
  by (simp add: SetScheduling_def)

text \<open>
  C8. \<open>WarnFilesystemType\<close> is a no-op for every path: it returns, prints no warning
  and leaves the whole machine unchanged.
\<close>

theorem WarnFilesystemType_noop:
  "WarnFilesystemType output_base w = (Returns (), w) \<and>
   stderr_log (snd (WarnFilesystemType output_base w)) = stderr_log w"
  by (simp add: WarnFilesystemType_def)

subsection \<open>Shared-library names\<close>

text \<open>
  C3. \<open>IsSharedLibrary\<close> answers true for \<^verbatim>\<open>foo.dylib\<close>, the native suffix of this
  operating system, and false for \<^verbatim>\<open>foo.so\<close>, \<^verbatim>\<open>foo.dll\<close> and \<^verbatim>\<open>foo.txt\<close>.
\<close>

theorem IsSharedLibrary_examples:
  "IsSharedLibrary ''foo.dylib'' \<and> \<not> IsSharedLibrary ''foo.so'' \<and>
   \<not> IsSharedLibrary ''foo.dll'' \<and> \<not> IsSharedLibrary ''foo.txt''"
  by (simp add: IsSharedLibrary_def ends_with_def)

text \<open>
  C10. \<open>IsSharedLibrary\<close> depends on the end of the name only and compares bytes: it
  answers true exactly for the strings made of any stem followed by the lowercase
  characters \<^verbatim>\<open>.dylib\<close>, the bare \<^verbatim>\<open>.dylib\<close> among them, and false for every
  other string, such as \<^verbatim>\<open>foo.DYLIB\<close> and \<^verbatim>\<open>foo.dylib.txt\<close>.
\<close>

theorem IsSharedLibrary_iff_dylib_suffix:
  "IsSharedLibrary filename = (\<exists>stem. filename = stem @ ''.dylib'') \<and>
   IsSharedLibrary ''.dylib'' \<and>
   \<not> IsSharedLibrary ''foo.DYLIB'' \<and>
   \<not> IsSharedLibrary ''foo.dylib.txt''"
proof -
  have "IsSharedLibrary filename = (\<exists>stem. filename = stem @ ''.dylib'')"
    by (simp only: IsSharedLibrary_def ends_with_iff_append)
  moreover have "IsSharedLibrary ''.dylib''"
    by (simp add: IsSharedLibrary_def ends_with_def)
  moreover have "\<not> IsSharedLibrary ''foo.DYLIB''"
    by (simp add: IsSharedLibrary_def ends_with_def)
  moreover have "\<not> IsSharedLibrary ''foo.dylib.txt''"
    by (simp add: IsSharedLibrary_def ends_with_def)
  ultimately show ?thesis
    by (intro conjI)
qed

subsection \<open>The peer of a connection\<close>

text \<open>
  C4, as the code has it. \<open>GetPeerProcessId\<close> ends the program with
  \<open>LOCAL_ENVIRONMENTAL_ERROR\<close> if and only if the peer query on the descriptor fails,
  that is \<^verbatim>\<open>getsockopt\<close> returns a negative value. When the query succeeds the
  function returns exactly the id the query stored (0 when it stored nothing) and changes
  nothing; it does not test that id, so the result is the id of the process at the other
  end, and positive, just as far as the value the system stored is.
\<close>

theorem GetPeerProcessId_dies_iff_query_fails:
  "((fst (GetPeerProcessId socket w) = Dies LOCAL_ENVIRONMENTAL_ERROR) =
      (fst (getsockopt_LOCAL_PEERPID w socket) < 0)) \<and>
   (0 \<le> fst (getsockopt_LOCAL_PEERPID w socket) \<longrightarrow>
      GetPeerProcessId socket w =
        (Returns (stored 0 (snd (getsockopt_LOCAL_PEERPID w socket))), w))"
  by (cases "getsockopt_LOCAL_PEERPID w socket")
     (simp add: GetPeerProcessId_def pdie_def stored_def)

text \<open>
  On a machine where descriptor 3 is connected to process 4711 and descriptor 5 is not a
  connected socket, the first query gives 4711 and the second ends the program.
\<close>

theorem GetPeerProcessId_dies_iff_query_fails_witness:
  "GetPeerProcessId 3 (peer_world 3 4711) = (Returns 4711, peer_world 3 4711) \<and>
   fst (GetPeerProcessId 5 (peer_world 3 4711)) = Dies LOCAL_ENVIRONMENTAL_ERROR"
proof -
  let ?w = "peer_world 3 4711"
  have connected: "getsockopt_LOCAL_PEERPID ?w 3 = (0, Some 4711)"
    by (simp add: peer_world_def)
  have closed: "fst (getsockopt_LOCAL_PEERPID ?w 5) < 0"
    by (simp add: peer_world_def)
  from GetPeerProcessId_dies_iff_query_fails [of 3 ?w] connected
  have answered: "GetPeerProcessId 3 ?w = (Returns 4711, ?w)"
    by (simp add: stored_def)
  from GetPeerProcessId_dies_iff_query_fails [of 5 ?w] closed
  have refused: "fst (GetPeerProcessId 5 ?w) = Dies LOCAL_ENVIRONMENTAL_ERROR"
    by blast
  from answered refused show ?thesis
    by (rule conjI)
qed

text \<open>
  C4 as stated fails where a successful query stores an id that is not positive: with
  \<^verbatim>\<open>getsockopt\<close> returning 0 and storing the id 0 for descriptor 3, the function
  returns 0.
\<close>

theorem GetPeerProcessId_zero_id_counterexample:
  "fst (getsockopt_LOCAL_PEERPID (peer_world 3 0) 3) = 0 \<and>
   GetPeerProcessId 3 (peer_world 3 0) = (Returns 0, peer_world 3 0) \<and>
   \<not> 0 < (0 :: pid_t)"
  by (simp add: GetPeerProcessId_def peer_world_def stored_def)

subsection \<open>The primitives that must succeed\<close>

text \<open>
  C5. When its system call fails (\<^verbatim>\<open>proc_pidpath\<close> returns 0, \<^verbatim>\<open>gettimeofday\<close> a
  negative value), \<open>GetSelfPath\<close> respectively \<open>MonotonicClock\<close> ends the program
  with \<open>INTERNAL_ERROR\<close>; neither returns any value to its caller then.
\<close>

theorem must_succeed_primitives_die_on_failure:
  "(fst (proc_pidpath w (getpid w)) = 0 \<longrightarrow>
      fst (GetSelfPath w) = Dies INTERNAL_ERROR \<and>
      (\<forall>path. fst (GetSelfPath w) \<noteq> Returns path)) \<and>
   (fst (gettimeofday w) < 0 \<longrightarrow>
      fst (MonotonicClock w) = Dies INTERNAL_ERROR \<and>
      (\<forall>t. fst (MonotonicClock w) \<noteq> Returns t))"
  by (cases "proc_pidpath w (getpid w)"; cases "gettimeofday w")
     (simp add: GetSelfPath_def MonotonicClock_def pdie_def)

text \<open>On the machine where every call fails both functions end the program.\<close>

theorem must_succeed_primitives_die_on_failure_witness:
  "fst (GetSelfPath failing_world) = Dies INTERNAL_ERROR \<and>
   fst (MonotonicClock failing_world) = Dies INTERNAL_ERROR"
  using must_succeed_primitives_die_on_failure [of failing_world]
  by (simp add: failing_world_def)

subsection \<open>The working directory of a process\<close>

text \<open>
  C6. \<open>GetProcessCWD\<close> never ends the program and leaves the machine as it was, for
  every process id. When the system cannot report the directory (\<^verbatim>\<open>proc_pidinfo\<close> does
  not return the size of the structure), the result is the empty string; whenever the
  path array the system filled holds a terminator, as every C string does, the function
  returns; and when the system reports the directory \<open>dir\<close>, stored as a C string in
  the path array, the result is \<open>dir\<close>.
\<close>

theorem GetProcessCWD_never_dies:
  "(\<forall>c. fst (GetProcessCWD pid w) \<noteq> Dies c) \<and>
   snd (GetProcessCWD pid w) = w \<and>
   (fst (proc_pidinfo_VNODEPATHINFO w pid) \<noteq> sizeof_proc_vnodepathinfo \<longrightarrow>
      GetProcessCWD pid w = (Returns '''', w)) \<and>
   (proc_pidinfo_VNODEPATHINFO w pid = (rc, Some info) \<longrightarrow>
    NUL \<in> set (vip_path (pvi_cdir info)) \<longrightarrow>
      (\<exists>path. GetProcessCWD pid w = (Returns path, w))) \<and>
   (proc_pidinfo_VNODEPATHINFO w pid = (sizeof_proc_vnodepathinfo, Some info) \<longrightarrow>
    vip_path (pvi_cdir info) = dir @ NUL # rest \<longrightarrow> NUL \<notin> set dir \<longrightarrow>
      GetProcessCWD pid w = (Returns dir, w))"
  by (cases "proc_pidinfo_VNODEPATHINFO w pid")
     (simp add: GetProcessCWD_def stored_def Let_def takeWhile_cstring)

text \<open>
  On a machine where process 7 runs in \<^verbatim>\<open>/tmp/x\<close> and there is no process 8, the
  directory of 7 is \<^verbatim>\<open>/tmp/x\<close> and that of 8 is empty.
\<close>

theorem GetProcessCWD_never_dies_witness:
  "GetProcessCWD 7 (cwd_world 7 ''/tmp/x'') = (Returns ''/tmp/x'', cwd_world 7 ''/tmp/x'') \<and>
   GetProcessCWD 8 (cwd_world 7 ''/tmp/x'') = (Returns '''', cwd_world 7 ''/tmp/x'')"
proof -
  let ?w = "cwd_world 7 ''/tmp/x''"
  let ?info = "\<lparr>pvi_cdir = \<lparr>vip_path = c_buffer MAXPATHLEN ''/tmp/x''\<rparr>,
                pvi_rdir = \<lparr>vip_path = c_buffer MAXPATHLEN ''/''\<rparr>\<rparr>"
  let ?rest = "replicate (MAXPATHLEN - Suc (length ''/tmp/x'')) NUL"
  have known: "proc_pidinfo_VNODEPATHINFO ?w 7 = (sizeof_proc_vnodepathinfo, Some ?info)"
    by (simp add: cwd_world_def)
  have buffer: "vip_path (pvi_cdir ?info) = ''/tmp/x'' @ NUL # ?rest"
    by (simp add: c_buffer_def)
  have clean: "NUL \<notin> set ''/tmp/x''"
    by (simp add: NUL_def)
  have unknown: "fst (proc_pidinfo_VNODEPATHINFO ?w 8) \<noteq> sizeof_proc_vnodepathinfo"
    by (simp add: cwd_world_def sizeof_proc_vnodepathinfo_def)
  from GetProcessCWD_never_dies
         [where pid = 7 and w = ?w and info = ?info and dir = "''/tmp/x''" and rest = ?rest]
       known buffer clean
  have live: "GetProcessCWD 7 ?w = (Returns ''/tmp/x'', ?w)"
    by blast
  from GetProcessCWD_never_dies [where pid = 8 and w = ?w] unknown
  have gone: "GetProcessCWD 8 ?w = (Returns '''', ?w)"
    by blast
  from live gone show ?thesis
    by (rule conjI)
qed

subsection \<open>The monotonic clock\<close>

text \<open>
  As long as the wall clock does not go back (and shows a moment not before the epoch),
  a later call of \<open>MonotonicClock\<close> does not return less than an earlier one.
\<close>

lemma MonotonicClock_follows_wall_clock:
  assumes earlier: "fst (MonotonicClock w1) = Returns v1"
    and later: "fst (MonotonicClock w2) = Returns v2"
    and ts1: "ts1 = stored \<lparr>tv_sec = 0, tv_usec = 0\<rparr> (snd (gettimeofday w1))"
    and ts2: "ts2 = stored \<lparr>tv_sec = 0, tv_usec = 0\<rparr> (snd (gettimeofday w2))"
    and epoch: "0 \<le> sint (tv_sec ts1) * 1000000000 + sint (tv_usec ts1) * 1000"
    and forward: "sint (tv_sec ts1) * 1000000000 + sint (tv_usec ts1) * 1000
                    \<le> sint (tv_sec ts2) * 1000000000 + sint (tv_usec ts2) * 1000"
  shows "v1 \<le> v2"
proof -
  let ?n1 = "sint (tv_sec ts1) * 1000000000 + sint (tv_usec ts1) * 1000"
  let ?n2 = "sint (tv_sec ts2) * 1000000000 + sint (tv_usec ts2) * 1000"
  from MonotonicClock_Returns [OF earlier ts1]
  have v1: "v1 = word_of_int ?n1" and fits1: "fits_signed 64 ?n1"
    by simp_all
  from MonotonicClock_Returns [OF later ts2]
  have v2: "v2 = word_of_int ?n2" and fits2: "fits_signed 64 ?n2"
    by simp_all
  from epoch fits1 have n1: "int (unat v1) = ?n1"
    unfolding v1 by (rule unat_word64_of_int)
  from epoch forward have "0 \<le> ?n2"
    by simp
  then have n2: "int (unat v2) = ?n2"
    using fits2 unfolding v2 by (rule unat_word64_of_int)
  from n1 n2 forward have "unat v1 \<le> unat v2"
    by linarith
  then show ?thesis
    by (simp add: word_le_nat_alt)
qed

text \<open>
  For a time value of the years 1970 to 2262 with its microseconds below a million, no
  step of the arithmetic overflows and \<open>MonotonicClock\<close> returns.
\<close>

lemma MonotonicClock_returns_in_range:
  assumes "gettimeofday w = (rc, Some ts)" and "0 \<le> rc"
    and "0 \<le> sint (tv_sec ts)" and "sint (tv_sec ts) \<le> 9223372035"
    and "0 \<le> sint (tv_usec ts)" and "sint (tv_usec ts) < 1000000"
  shows "MonotonicClock w =
           (Returns (word_of_int (sint (tv_sec ts) * 1000000000 + sint (tv_usec ts) * 1000)), w)"
  using assms
  by (simp add: MonotonicClock_def stored_def fits_signed_def Let_def)

text \<open>
  C1 asks that of two successive calls of \<open>MonotonicClock\<close> the later never returns
  less than the earlier, also across adjustments of the wall clock. The function reads
  the wall clock with \<^verbatim>\<open>gettimeofday\<close>: on a machine whose clock showed
  1400000000.250000 s at the first call and, set back by one second, 1399999999.250000 s
  at the second, the later call returns the smaller value.
\<close>

theorem MonotonicClock_decreases_when_clock_set_back:
  "fst (MonotonicClock (clock_world 1400000000 250000)) = Returns 1400000000250000000 \<and>
   fst (MonotonicClock (clock_world 1399999999 250000)) = Returns 1399999999250000000 \<and>
   \<not> (1400000000250000000 :: uint64) \<le> 1399999999250000000"
  by (simp add: MonotonicClock_def clock_world_def stored_def fits_signed_def)

text \<open>
  C9, as the code has it. Whenever the time value the call stored is not negative
  (\<open>tv_sec * 1000000000 + tv_usec * 1000 \<ge> 0\<close>), every value \<open>MonotonicClock\<close> returns,
  and so every value \<open>ProcessClock\<close> returns, is exactly that number and hence a
  multiple of 1000: the clock has microsecond resolution.
\<close>

theorem MonotonicClock_multiple_of_1000:
  assumes "ts = stored \<lparr>tv_sec = 0, tv_usec = 0\<rparr> (snd (gettimeofday w))"
    and "0 \<le> sint (tv_sec ts) * 1000000000 + sint (tv_usec ts) * 1000"
    and "fst (MonotonicClock w) = Returns v"
  shows "int (unat v) = sint (tv_sec ts) * 1000000000 + sint (tv_usec ts) * 1000 \<and>
         1000 dvd unat v \<and> fst (ProcessClock w) = Returns v"
proof -
  let ?n = "sint (tv_sec ts) * 1000000000 + sint (tv_usec ts) * 1000"
  from MonotonicClock_Returns [OF assms(3) assms(1)]
  have v: "v = word_of_int ?n" and fits: "fits_signed 64 ?n"
    by simp_all
  from assms(2) fits have exact: "int (unat v) = ?n"
    unfolding v by (rule unat_word64_of_int)
  have "?n = 1000 * (sint (tv_sec ts) * 1000000 + sint (tv_usec ts))"
    by simp
  then have "1000 dvd ?n" ..
  with exact have "(1000::int) dvd int (unat v)"
    by simp
  then have "1000 dvd unat v"
    by presburger
  with exact assms(3) show ?thesis
    by (simp add: ProcessClock_def)
qed

text \<open>With the clock at 5.000007 s the function returns 5000007000.\<close>

theorem MonotonicClock_multiple_of_1000_witness:
  "fst (MonotonicClock (clock_world 5 7)) = Returns 5000007000 \<and>
   int (unat (5000007000 :: uint64)) = 5 * 1000000000 + 7 * 1000 \<and>
   1000 dvd unat (5000007000 :: uint64)"
proof -
  let ?ts = "\<lparr>tv_sec = 5, tv_usec = 7\<rparr>"
  have ts: "?ts = stored \<lparr>tv_sec = 0, tv_usec = 0\<rparr> (snd (gettimeofday (clock_world 5 7)))"
    by (simp add: clock_world_def stored_def)
  have nonneg: "0 \<le> sint (tv_sec ?ts) * 1000000000 + sint (tv_usec ?ts) * 1000"
    by simp
  have ret: "fst (MonotonicClock (clock_world 5 7)) = Returns 5000007000"
    by (simp add: MonotonicClock_def clock_world_def stored_def fits_signed_def)
  from MonotonicClock_multiple_of_1000 [OF ts nonneg ret] ret show ?thesis
    by simp
qed

text \<open>
  C9 as stated fails for a time value before the epoch: with \<open>tv_sec = - 1\<close> and
  \<open>tv_usec = 0\<close> the sum is \<open>- 1000000000\<close>, which the return type turns into
  \<open>2 ^ 64 - 1000000000\<close>, and that is no multiple of 1000.
\<close>

theorem MonotonicClock_before_epoch_counterexample:
  "fst (MonotonicClock (clock_world (- 1) 0)) = Returns 18446744072709551616 \<and>
   \<not> 1000 dvd unat (18446744072709551616 :: uint64)"
  by (simp add: MonotonicClock_def clock_world_def stored_def fits_signed_def)

end
